theory Spec2Isabelle
  imports Complex_Main "HOL-Library.Sublist" "HOL-Library.Char_ord" "HOL-Library.List_Lexorder"
begin

section \<open>Go strings\<close>

text \<open>
  A Go string is a sequence of bytes, here a \<^typ>\<open>string\<close>. The functions of package
  \<open>strings\<close> that the decision pipeline calls are written out below on bytes.

  \<open>strings.TrimSpace\<close> removes the leading and trailing white space of Unicode. The code
  points with the White_Space property are U+0009..U+000D, U+0020, U+0085, U+00A0,
  U+1680, U+2000..U+200A, U+2028, U+2029, U+202F, U+205F and U+3000; the list below holds
  their UTF-8 encodings. Each encoding is a lead byte followed by continuation bytes only,
  so a string begins (ends) with one of them exactly when its first (last) rune decodes
  to that code point.
\<close>

definition unicodeSpaces :: "string list" where
  "unicodeSpaces =
     [[CHR 0x09], [CHR 0x0A], [CHR 0x0B], [CHR 0x0C], [CHR 0x0D], [CHR 0x20],
      [CHR 0xC2, CHR 0x85], [CHR 0xC2, CHR 0xA0],
      [CHR 0xE1, CHR 0x9A, CHR 0x80],
      [CHR 0xE2, CHR 0x80, CHR 0x80], [CHR 0xE2, CHR 0x80, CHR 0x81],
      [CHR 0xE2, CHR 0x80, CHR 0x82], [CHR 0xE2, CHR 0x80, CHR 0x83],
      [CHR 0xE2, CHR 0x80, CHR 0x84], [CHR 0xE2, CHR 0x80, CHR 0x85],
      [CHR 0xE2, CHR 0x80, CHR 0x86], [CHR 0xE2, CHR 0x80, CHR 0x87],
      [CHR 0xE2, CHR 0x80, CHR 0x88], [CHR 0xE2, CHR 0x80, CHR 0x89],
      [CHR 0xE2, CHR 0x80, CHR 0x8A],
      [CHR 0xE2, CHR 0x80, CHR 0xA8], [CHR 0xE2, CHR 0x80, CHR 0xA9],
      [CHR 0xE2, CHR 0x80, CHR 0xAF], [CHR 0xE2, CHR 0x81, CHR 0x9F],
      [CHR 0xE3, CHR 0x80, CHR 0x80]]"

definition leadingSpace :: "string \<Rightarrow> string option" where
  "leadingSpace s = find (\<lambda>p. prefix p s) unicodeSpaces"

definition trailingSpace :: "string \<Rightarrow> string option" where
  "trailingSpace s = find (\<lambda>p. suffix p s) unicodeSpaces"

lemma unicodeSpaces_nonempty: "p \<in> set unicodeSpaces \<Longrightarrow> p \<noteq> []"
  by (auto simp: unicodeSpaces_def)

lemma leadingSpace_Some: "leadingSpace s = Some p \<Longrightarrow> prefix p s \<and> p \<noteq> []"
  unfolding leadingSpace_def find_Some_iff
  by (metis nth_mem unicodeSpaces_nonempty)

lemma trailingSpace_Some: "trailingSpace s = Some p \<Longrightarrow> suffix p s \<and> p \<noteq> []"
  unfolding trailingSpace_def find_Some_iff
  by (metis nth_mem unicodeSpaces_nonempty)

function trimLeftSpace :: "string \<Rightarrow> string" where
  "trimLeftSpace s =
     (case leadingSpace s of
        Some p \<Rightarrow> trimLeftSpace (drop (length p) s)
      | None \<Rightarrow> s)"
  by pat_completeness auto
termination
proof (relation "measure length")
  show "wf (measure length)" by simp
next
  fix s p assume "leadingSpace s = Some p"
  then have "prefix p s" and "p \<noteq> []" using leadingSpace_Some by blast+
  then have "length p \<le> length s" by (auto dest: prefix_length_le)
  with \<open>p \<noteq> []\<close> show "(drop (length p) s, s) \<in> measure length" by (cases p) simp_all
qed

function trimRightSpace :: "string \<Rightarrow> string" where
  "trimRightSpace s =
     (case trailingSpace s of
        Some p \<Rightarrow> trimRightSpace (take (length s - length p) s)
      | None \<Rightarrow> s)"
  by pat_completeness auto
termination
proof (relation "measure length")
  show "wf (measure length)" by simp
next
  fix s p assume "trailingSpace s = Some p"
  then have "suffix p s" and "p \<noteq> []" using trailingSpace_Some by blast+
  then have "length p \<le> length s" by (auto dest: suffix_length_le)
  with \<open>p \<noteq> []\<close> show "(take (length s - length p) s, s) \<in> measure length" by (cases p) simp_all
qed

declare trimLeftSpace.simps [simp del]
declare trimRightSpace.simps [simp del]

definition TrimSpace :: "string \<Rightarrow> string" where
  "TrimSpace s = trimRightSpace (trimLeftSpace s)"

definition HasPrefix :: "string \<Rightarrow> string \<Rightarrow> bool" where
  "HasPrefix s p = prefix p s"

definition HasSuffix :: "string \<Rightarrow> string \<Rightarrow> bool" where
  "HasSuffix s p = suffix p s"

definition TrimPrefix :: "string \<Rightarrow> string \<Rightarrow> string" where
  "TrimPrefix s p = (if HasPrefix s p then drop (length p) s else s)"

definition TrimSuffix :: "string \<Rightarrow> string \<Rightarrow> string" where
  "TrimSuffix s p = (if HasSuffix s p then take (length s - length p) s else s)"

text \<open>
  \<open>strings.Index\<close> returns the byte offset of the first occurrence of the separator, or
  \<open>-1\<close>; \<open>strings.LastIndex\<close> that of the last one. \<open>None\<close> stands for \<open>-1\<close>.
\<close>

fun Index :: "string \<Rightarrow> string \<Rightarrow> nat option" where
  "Index [] sep = (if sep = [] then Some 0 else None)"
| "Index (c # cs) sep =
     (if prefix sep (c # cs) then Some 0 else map_option Suc (Index cs sep))"

fun LastIndex :: "string \<Rightarrow> string \<Rightarrow> nat option" where
  "LastIndex [] sep = (if sep = [] then Some 0 else None)"
| "LastIndex (c # cs) sep =
     (case LastIndex cs sep of
        Some i \<Rightarrow> Some (Suc i)
      | None \<Rightarrow> (if prefix sep (c # cs) then Some 0 else None))"

definition Contains :: "string \<Rightarrow> string \<Rightarrow> bool" where
  "Contains s sub = (Index s sub \<noteq> None)"

text \<open>
  \<open>strings.ToLower\<close> maps every rune to its lower case. The pipeline compares the lowered
  text with ASCII literals only, so the model lowers the runes whose lower case is an
  ASCII letter: \<open>A\<close>..\<open>Z\<close>, U+0130 (bytes C4 B0, lowered to \<open>i\<close>) and U+212A (bytes
  E2 84 AA, lowered to \<open>k\<close>). The bytes of every other rune are kept as they are; Go
  rewrites them to bytes of other runes outside ASCII, which no comparison with an ASCII
  literal can tell apart.
\<close>

definition lowerByte :: "char \<Rightarrow> char" where
  "lowerByte c =
     (case map_of (zip ''ABCDEFGHIJKLMNOPQRSTUVWXYZ'' ''abcdefghijklmnopqrstuvwxyz'') c of
        Some d \<Rightarrow> d
      | None \<Rightarrow> c)"

fun ToLower :: "string \<Rightarrow> string" where
  "ToLower [] = []"
| "ToLower (c # cs) =
     (if prefix [CHR 0xC4, CHR 0xB0] (c # cs) then CHR ''i'' # ToLower (drop 1 cs)
      else if prefix [CHR 0xE2, CHR 0x84, CHR 0xAA] (c # cs) then CHR ''k'' # ToLower (drop 2 cs)
      else lowerByte c # ToLower cs)"

section \<open>Decision data\<close>

text \<open>
  The records of package \<open>ai\<close> that validation reads. A \<open>float64\<close> field is modelled by
  the real number it denotes (no rounding, no NaN and no infinities), an \<open>int\<close> by
  \<^typ>\<open>int\<close>.
\<close>

record AdjustmentPlan =
  SizeMultiplier :: real
  TargetLeverage :: real
  StopLossPercent :: real
  TakeProfitPercent :: real
  TrailingStopPercent :: real

record DecisionResponse =
  Action :: string
  Confidence :: real
  Reason :: string
  Adjustments :: AdjustmentPlan
  RiskNotes :: "string list"
  RawContent :: string
  CoTTrace :: string

record RiskLimits =
  MaxDailyLossPercent :: real
  MaxPositionNotionalUSD :: real
  MaxConcurrentPositions :: int
  MaxLeverage :: real
  BtcEthNotionalMultiple :: real
  AltNotionalMultiple :: real
  MinRiskRewardRatio :: real

section \<open>Decision validation\<close>

text \<open>
  \<open>validateDecisionResponse\<close> returns \<open>nil\<close> (\<open>None\<close>) or an error built by
  \<open>fmt.Errorf\<close>; each error is a constructor carrying the values its message prints.
\<close>

datatype validation_error =
    UnknownAction string
  | NegativeTargetLeverage
  | TargetLeverageAboveLimit real real
  | RiskRewardBelowMinimum real real

definition validActions :: "string list" where
  "validActions =
     [''open_long'', ''open_short'', ''increase_long'', ''increase_short'',
      ''close'', ''exit'', ''reduce'', ''hold'', ''wait'']"

definition validateDecisionResponse :: "DecisionResponse \<Rightarrow> RiskLimits \<Rightarrow> validation_error option" where
  "validateDecisionResponse decision limits =
     (let action = ToLower (TrimSpace (Action decision));
          targetLev = TargetLeverage (Adjustments decision);
          rr = TakeProfitPercent (Adjustments decision) / StopLossPercent (Adjustments decision)
      in if action \<notin> set validActions \<and> action \<noteq> [] then Some (UnknownAction (Action decision))
         else if targetLev < 0 then Some NegativeTargetLeverage
         else if MaxLeverage limits > 0 \<and> targetLev > MaxLeverage limits
           then Some (TargetLeverageAboveLimit targetLev (MaxLeverage limits))
         else if StopLossPercent (Adjustments decision) > 0
                  \<and> TakeProfitPercent (Adjustments decision) > 0
           then (if MinRiskRewardRatio limits > 0
                 then (if rr + 1 / 10 ^ 9 < MinRiskRewardRatio limits
                       then Some (RiskRewardBelowMinimum rr (MinRiskRewardRatio limits))
                       else None)
                 else None)
         else None)"

section \<open>The reflection prompt\<close>

text \<open>
  The prompts are long texts, mostly fixed. A prompt is modelled by the list of the blocks
  that the builder writes, in the order of its \<open>WriteString\<close> calls: a fixed literal is a
  constructor naming it, a \<open>Sprintf\<close> line a constructor carrying the arguments it prints.
\<close>

record PerformanceStats =
  SharpeRatio :: real
  WinRate :: real
  TotalTrades :: int
  ProfitFactor :: real

record PositionContext =
  Symbol :: string
  Side :: string
  Quantity :: real
  EntryPrice :: real
  Leverage :: real
  UnrealizedPNL :: real
  HoldingMinutes :: int
  MarkPrice :: real
  UnrealizedPct :: real
  MarginUsed :: real
  Liquidation :: real

text \<open>
  The four literal blocks of the threshold chain of \<open>buildReflectionPrompt\<close>, named as
  the specification names them: stop trading and observe for at least six cycles
  (\<open>Halt\<close>), strict risk control (\<open>Caution\<close>), keep the strategy (\<open>Steady\<close>), expand
  moderately (\<open>Expand\<close>).
\<close>

datatype tier = Halt | Caution | Steady | Expand

datatype holding = HeldMinutes int | HeldHoursMinutes int int

datatype reflection_block =
    FrameworkHeading
  | TierDirective tier
  | ReflectionMetrics
  | PositionAnalysisHeading
  | PositionAnalysisLine string string holding real
  | PositionAnalysisEnd
  | ReflectionProcess

definition holdingText :: "PositionContext \<Rightarrow> holding" where
  "holdingText pos =
     (if HoldingMinutes pos < 60 then HeldMinutes (HoldingMinutes pos)
      else HeldHoursMinutes (HoldingMinutes pos div 60) (HoldingMinutes pos mod 60))"

definition buildReflectionPrompt ::
    "real \<Rightarrow> PerformanceStats \<Rightarrow> PositionContext list \<Rightarrow> reflection_block list" where
  "buildReflectionPrompt sharpeRatio performance positions =
     [FrameworkHeading]
     @ (if sharpeRatio < - (5 / 10) then [TierDirective Halt]
        else if sharpeRatio < 0 then [TierDirective Caution]
        else if sharpeRatio < 7 / 10 then [TierDirective Steady]
        else [TierDirective Expand])
     @ [ReflectionMetrics]
     @ (if length positions > 0
        then [PositionAnalysisHeading]
             @ concat (map (\<lambda>pos.
                 if HoldingMinutes pos > 0
                 then [PositionAnalysisLine (Symbol pos) (Side pos) (holdingText pos)
                         (UnrealizedPct pos)]
                 else []) positions)
             @ [PositionAnalysisEnd]
        else [])
     @ [ReflectionProcess]"


section \<open>Resilient invocation\<close>

text \<open>
  A Go \<open>error\<close> is modelled by what \<open>isNetworkError\<close> can observe of it: whether
  \<open>errors.As\<close> finds in its chain a \<open>net.Error\<close> that reports a timeout, a
  \<open>*net.DNSError\<close> or a \<open>*net.OpError\<close>, and the text of \<open>err.Error()\<close>. A \<open>nil\<close> error
  is \<open>None\<close>.
\<close>

record go_error =
  netTimeout :: bool
  dnsError :: bool
  opError :: bool
  errorText :: string

definition errorsNew :: "string \<Rightarrow> go_error" where
  "errorsNew msg = \<lparr>netTimeout = False, dnsError = False, opError = False, errorText = msg\<rparr>"

text \<open>\<open>fmt.Errorf(prefix + "%w", err)\<close>: the chain of \<open>err\<close> is kept, the text is prefixed.\<close>

definition errorfWrap :: "string \<Rightarrow> go_error \<Rightarrow> go_error" where
  "errorfWrap pre err = err\<lparr>errorText := pre @ errorText err\<rparr>"

definition isNetworkError :: "go_error option \<Rightarrow> bool" where
  "isNetworkError e =
     (case e of
        None \<Rightarrow> False
      | Some err \<Rightarrow>
          if netTimeout err then True
          else if dnsError err then True
          else if opError err then True
          else if Contains (errorText err) ''connection''
                \<or> Contains (errorText err) ''network''
                \<or> Contains (errorText err) ''timeout''
                \<or> Contains (errorText err) ''reset''
                \<or> Contains (errorText err) ''refused'' then True
          else False)"

text \<open>Decimal digits of an integer, as the verb \<open>%d\<close> prints it.\<close>

fun decimal :: "nat \<Rightarrow> string" where
  "decimal n =
     (if n < 10 then [''0123456789'' ! n]
      else decimal (n div 10) @ [''0123456789'' ! (n mod 10)])"

declare decimal.simps [simp del]

definition formatInt :: "int \<Rightarrow> string" where
  "formatInt i = (if i < 0 then ''-'' @ decimal (nat (- i)) else decimal (nat i))"

record completionMessage =
  Role :: string
  Content :: string

text \<open>The field \<open>Error\<close> of the response is a pointer: \<open>None\<close> when absent.\<close>

record completionResponse =
  Choices :: "completionMessage list"
  Error :: "string option"

record Client =
  apiKey :: string

text \<open>
  The world outside the client: \<open>posts\<close> counts the calls of \<open>PostJSON\<close> made so far and
  \<open>slept\<close> lists the durations passed to \<open>time.Sleep\<close>, in nanoseconds, oldest first. The
  network is a function that gives the result of the k-th call of \<open>PostJSON\<close>: an error
  or the decoded response body. Logging, which does not affect any result, is left out.
\<close>

record world =
  posts :: nat
  slept :: "int list"

type_synonym network = "nat \<Rightarrow> go_error + completionResponse"

definition Second :: int where
  "Second = 1000000000"

definition baseRetryDelay :: int where
  "baseRetryDelay = 2 * Second"

definition errMessagesEmpty :: string where
  "errMessagesEmpty = ''messages'' @ [CHR 0xE4, CHR 0xB8, CHR 0xBA, CHR 0xE7, CHR 0xA9, CHR 0xBA]"

definition errNoAPIKey :: string where
  "errNoAPIKey = ''deepseek api key ''
     @ [CHR 0xE6, CHR 0x9C, CHR 0xAA, CHR 0xE8, CHR 0xAE, CHR 0xBE, CHR 0xE7, CHR 0xBD, CHR 0xAE]"

definition errNoChoices :: string where
  "errNoChoices = ''deepseek''
     @ [CHR 0xE6, CHR 0x97, CHR 0xA0, CHR 0xE8, CHR 0xBF, CHR 0x94, CHR 0xE5, CHR 0x9B, CHR 0x9E,
        CHR 0xE7, CHR 0xBB, CHR 0x93, CHR 0xE6, CHR 0x9E, CHR 0x9C]"

text \<open>
  The text of the error returned when every attempt failed: the bytes of the format
  string around \<open>%d\<close> and \<open>%w\<close>, with the attempt count and the text of the last error.
\<close>

definition errRetriesExhausted :: "int \<Rightarrow> string \<Rightarrow> string" where
  "errRetriesExhausted n cause =
     [CHR 0xE9, CHR 0x87, CHR 0x8D, CHR 0xE8, CHR 0xAF, CHR 0x95] @ formatInt n
     @ [CHR 0xE6, CHR 0xAC, CHR 0xA1, CHR 0xE5, CHR 0x90, CHR 0x8E, CHR 0xE4, CHR 0xBB, CHR 0x8D,
        CHR 0xE7, CHR 0x84, CHR 0xB6, CHR 0xE5, CHR 0xA4, CHR 0xB1, CHR 0xE8, CHR 0xB4, CHR 0xA5]
     @ '': '' @ cause"

text \<open>
  \<open>fmt.Errorf\<close> with \<open>%w\<close> of the last error. The loop reaches it only with an error
  recorded; for a \<open>nil\<close> argument \<open>fmt\<close> prints \<open>%!w(<nil>)\<close>.
\<close>

definition retriesExhausted :: "int \<Rightarrow> go_error option \<Rightarrow> go_error" where
  "retriesExhausted n lastErr =
     (case lastErr of
        Some err \<Rightarrow> err\<lparr>errorText := errRetriesExhausted n (errorText err)\<rparr>
      | None \<Rightarrow> errorsNew (errRetriesExhausted n ''%!w(<nil>)''))"

definition sendCompletion ::
    "Client \<Rightarrow> network \<Rightarrow> completionMessage list \<Rightarrow> world
      \<Rightarrow> (go_error + completionMessage) \<times> world" where
  "sendCompletion c net messages w =
     (if length messages = 0 then (Inl (errorsNew errMessagesEmpty), w)
      else if apiKey c = [] then (Inl (errorsNew errNoAPIKey), w)
      else
        (case net (posts w) of
           Inl err \<Rightarrow> (Inl (errorfWrap ''deepseek request: '' err), w\<lparr>posts := posts w + 1\<rparr>)
         | Inr payload \<Rightarrow>
             (case Error payload of
                Some msg \<Rightarrow> (Inl (errorsNew msg), w\<lparr>posts := posts w + 1\<rparr>)
              | None \<Rightarrow>
                  (case Choices payload of
                     [] \<Rightarrow> (Inl (errorsNew errNoChoices), w\<lparr>posts := posts w + 1\<rparr>)
                   | result # _ \<Rightarrow> (Inr result, w\<lparr>posts := posts w + 1\<rparr>)))))"

definition maxRetries :: nat where
  "maxRetries = 3"

text \<open>
  The loop of \<open>CallWithMessages\<close>, from the attempt \<open>attempt\<close> on, with the last error
  recorded so far.
\<close>

function retryLoop ::
    "Client \<Rightarrow> network \<Rightarrow> completionMessage list \<Rightarrow> nat \<Rightarrow> go_error option \<Rightarrow> world
      \<Rightarrow> (go_error + string) \<times> world" where
  "retryLoop c net messages attempt lastErr w =
     (if attempt \<le> maxRetries then
        (case sendCompletion c net messages w of
           (Inr response, w') \<Rightarrow> (Inr (Content response), w')
         | (Inl err, w') \<Rightarrow>
             if isNetworkError (Some err)
             then retryLoop c net messages (attempt + 1) (Some err)
                    (w'\<lparr>slept := slept w' @ [int attempt * baseRetryDelay]\<rparr>)
             else (Inl err, w'))
      else (Inl (retriesExhausted (int maxRetries) lastErr), w))"
  by pat_completeness auto
termination
  by (relation "measure (\<lambda>(c, net, messages, attempt, lastErr, w). Suc maxRetries - attempt)") auto

declare retryLoop.simps [simp del]

text \<open>The receiver of \<open>CallWithMessages\<close> is a pointer: \<open>None\<close> is the \<open>nil\<close> client.\<close>

definition CallWithMessages ::
    "Client option \<Rightarrow> network \<Rightarrow> string \<Rightarrow> string \<Rightarrow> world \<Rightarrow> (go_error + string) \<times> world" where
  "CallWithMessages client net systemPrompt userPrompt w =
     (case client of
        None \<Rightarrow> (Inl (errorsNew ''deepseek client is nil''), w)
      | Some c \<Rightarrow>
          if apiKey c = [] then (Inl (errorsNew errNoAPIKey), w)
          else
            retryLoop c net
              [\<lparr>Role = ''system'', Content = systemPrompt\<rparr>,
               \<lparr>Role = ''user'', Content = userPrompt\<rparr>]
              1 None w)"

section \<open>Response parsing\<close>

definition trimJSONFences :: "string \<Rightarrow> string" where
  "trimJSONFences s =
     (let trimmed = TrimSpace s
      in if HasPrefix trimmed ''```'' then
           (let trimmed = TrimPrefix trimmed ''```'';
                trimmed = TrimSpace trimmed;
                lower = ToLower trimmed;
                trimmed = (if HasPrefix lower ''json''
                           then (case Index trimmed [CHR 0x0A] of
                                   Some idx \<Rightarrow> drop (idx + 1) trimmed
                                 | None \<Rightarrow> [])
                           else trimmed);
                trimmed = TrimSpace trimmed;
                trimmed = (if HasSuffix trimmed ''```'' then TrimSuffix trimmed ''```'' else trimmed);
                trimmed = TrimSpace trimmed
            in trimmed)
         else trimmed)"

subsection \<open>JSON values and their decoding\<close>

text \<open>
  The \<open>riskNotes\<close> field is kept by the decoder as undecoded JSON. A JSON value is modelled by
  its syntax tree; numbers are reals, as \<open>float64\<close> is throughout. The three decoding attempts of
  \<open>parseRiskNotes\<close> are \<open>json.Unmarshal\<close> into \<open>[]string\<close>, into \<open>string\<close> and into
  \<open>[]interface{}\<close>: \<open>null\<close> decodes into every target and leaves it at its zero value, and a
  \<open>null\<close> element of a string list decodes to the empty string.
\<close>

datatype json =
    JNull
  | JBool bool
  | JNumber real
  | JString string
  | JArray "json list"
  | JObject "(string \<times> json) list"

fun unmarshalStrings :: "json \<Rightarrow> string list option" where
  "unmarshalStrings JNull = Some []"
| "unmarshalStrings (JArray xs) =
     (if list_all (\<lambda>x. case x of JString _ \<Rightarrow> True | JNull \<Rightarrow> True | _ \<Rightarrow> False) xs
      then Some (map (\<lambda>x. case x of JString s \<Rightarrow> s | _ \<Rightarrow> []) xs)
      else None)"
| "unmarshalStrings _ = None"

fun unmarshalString :: "json \<Rightarrow> string option" where
  "unmarshalString JNull = Some []"
| "unmarshalString (JString s) = Some s"
| "unmarshalString _ = None"

fun unmarshalArray :: "json \<Rightarrow> json list option" where
  "unmarshalArray JNull = Some []"
| "unmarshalArray (JArray xs) = Some xs"
| "unmarshalArray _ = None"

text \<open>
  \<open>fmt.Sprint\<close> of a decoded value. The text of a number is that of \<open>strconv\<close>, taken as the
  parameter \<open>formatFloat\<close>; a map is printed with its keys sorted, a repeated key keeping the
  last value.
\<close>

fun joinWith :: "string \<Rightarrow> string list \<Rightarrow> string" where
  "joinWith sep [] = []"
| "joinWith sep [x] = x"
| "joinWith sep (x # y # ys) = x @ sep @ joinWith sep (y # ys)"

definition mapEntries :: "(string \<times> string) list \<Rightarrow> (string \<times> string) list" where
  "mapEntries es =
     map (\<lambda>k. (k, case map_of (rev es) k of Some v \<Rightarrow> v | None \<Rightarrow> []))
       (sort (remdups (map fst es)))"

fun Sprint :: "(real \<Rightarrow> string) \<Rightarrow> json \<Rightarrow> string" where
  "Sprint formatFloat JNull = ''<nil>''"
| "Sprint formatFloat (JBool b) = (if b then ''true'' else ''false'')"
| "Sprint formatFloat (JNumber x) = formatFloat x"
| "Sprint formatFloat (JString s) = s"
| "Sprint formatFloat (JArray xs) = ''['' @ joinWith '' '' (map (Sprint formatFloat) xs) @ '']''"
| "Sprint formatFloat (JObject kvs) =
     ''map[''
     @ joinWith '' ''
         (map (\<lambda>(k, v). k @ '':'' @ v)
            (mapEntries (map (\<lambda>(k, v). (k, Sprint formatFloat v)) kvs)))
     @ '']''"


subsection \<open>Risk notes\<close>

datatype parse_error =
    NoContent
  | InvalidJSON
  | RiskNotesUnparseable json
  | Unparseable string

definition parseRiskNotes :: "(real \<Rightarrow> string) \<Rightarrow> json option \<Rightarrow> parse_error + string list" where
  "parseRiskNotes formatFloat raw =
     (case raw of
        None \<Rightarrow> Inr []
      | Some JNull \<Rightarrow> Inr []
      | Some v \<Rightarrow>
          (case unmarshalStrings v of
             Some notes \<Rightarrow> Inr notes
           | None \<Rightarrow>
               (case unmarshalString v of
                  Some single \<Rightarrow> (if TrimSpace single = [] then Inr [] else Inr [single])
                | None \<Rightarrow>
                    (case unmarshalArray v of
                       Some arr \<Rightarrow> Inr (map (Sprint formatFloat) arr)
                     | None \<Rightarrow> Inl (RiskNotesUnparseable v)))))"

subsection \<open>Decoding a decision\<close>

text \<open>
  \<open>json.Unmarshal\<close> into \<open>rawDecision\<close> is a parameter of the model: it returns the decoded
  fields, or nothing where the text is not a JSON object of that shape.
\<close>

record rawDecision =
  raw_Action :: string
  raw_Confidence :: real
  raw_Reason :: string
  raw_Adjustments :: AdjustmentPlan
  raw_RiskNotes :: "json option"

type_synonym unmarshaler = "string \<Rightarrow> rawDecision option"

definition decodeDecision ::
    "unmarshaler \<Rightarrow> (real \<Rightarrow> string) \<Rightarrow> string \<Rightarrow> parse_error + DecisionResponse" where
  "decodeDecision unmarshal formatFloat content =
     (case unmarshal content of
        None \<Rightarrow> Inl InvalidJSON
      | Some raw \<Rightarrow>
          (case parseRiskNotes formatFloat (raw_RiskNotes raw) of
             Inl err \<Rightarrow> Inl err
           | Inr notes \<Rightarrow>
               Inr \<lparr>Action = raw_Action raw, Confidence = raw_Confidence raw,
                    Reason = raw_Reason raw, Adjustments = raw_Adjustments raw,
                    RiskNotes = notes, RawContent = [], CoTTrace = []\<rparr>))"

definition Trim :: "string \<Rightarrow> string \<Rightarrow> string" where
  "Trim s cutset =
     rev (dropWhile (\<lambda>c. c \<in> set cutset) (rev (dropWhile (\<lambda>c. c \<in> set cutset) s)))"

definition extractCoTTrace :: "string \<Rightarrow> string" where
  "extractCoTTrace raw =
     (let trimmed = TrimSpace raw;
          lower = ToLower trimmed;
          trimmed = (if HasPrefix lower ''```json''
                     then (case Index trimmed [CHR 0x0A] of
                             Some idx \<Rightarrow> TrimSpace (drop (idx + 1) trimmed)
                           | None \<Rightarrow> trimmed)
                     else trimmed)
      in case Index trimmed ''{'' of
           None \<Rightarrow> []
         | Some idx \<Rightarrow>
             if idx \<le> 0 then []
             else (let trace = TrimSpace (take idx trimmed);
                       trace = Trim trace ''`''
                   in TrimSpace trace))"

definition parseFullDecisionResponse ::
    "unmarshaler \<Rightarrow> (real \<Rightarrow> string) \<Rightarrow> string \<Rightarrow> parse_error + DecisionResponse" where
  "parseFullDecisionResponse unmarshal formatFloat raw =
     (let content = trimJSONFences raw
      in if content = [] then Inl NoContent
         else
           (case decodeDecision unmarshal formatFloat content of
              Inr resp \<Rightarrow> Inr (resp\<lparr>RawContent := content, CoTTrace := extractCoTTrace raw\<rparr>)
            | Inl _ \<Rightarrow>
                (case (Index content ''{'', LastIndex content ''}'') of
                   (Some start, Some end) \<Rightarrow>
                     if end > start then
                       (let snippet = take (end + 1 - start) (drop start content)
                        in case decodeDecision unmarshal formatFloat snippet of
                             Inr resp \<Rightarrow>
                               Inr (resp\<lparr>RawContent := content, CoTTrace := extractCoTTrace raw\<rparr>)
                           | Inl _ \<Rightarrow> Inl (Unparseable content))
                     else Inl (Unparseable content)
                 | _ \<Rightarrow> Inl (Unparseable content))))"

subsection \<open>Generating a decision\<close>

text \<open>
  \<open>GenerateDecision\<close> from the two rendered prompts on: the call, the parse, the two field
  updates and the validation. Logging is left out.
\<close>

datatype decision_error =
    ClientIsNil
  | APIKeyNotSet
  | CallFailed go_error
  | ParseFailed parse_error
  | ValidationFailed validation_error

definition GenerateDecision ::
    "Client option \<Rightarrow> network \<Rightarrow> unmarshaler \<Rightarrow> (real \<Rightarrow> string) \<Rightarrow> string \<Rightarrow> string
      \<Rightarrow> RiskLimits \<Rightarrow> world \<Rightarrow> (decision_error + DecisionResponse) \<times> world" where
  "GenerateDecision client net unmarshal formatFloat systemPrompt userPrompt limits w =
     (case client of
        None \<Rightarrow> (Inl ClientIsNil, w)
      | Some c \<Rightarrow>
          if apiKey c = [] then (Inl APIKeyNotSet, w)
          else
            (case CallWithMessages client net systemPrompt userPrompt w of
               (Inl err, w') \<Rightarrow> (Inl (CallFailed err), w')
             | (Inr respContent, w') \<Rightarrow>
                 (case parseFullDecisionResponse unmarshal formatFloat respContent of
                    Inl err \<Rightarrow> (Inl (ParseFailed err), w')
                  | Inr decision \<Rightarrow>
                      (let decision = decision\<lparr>RawContent := respContent\<rparr>;
                           decision = (if CoTTrace decision = []
                                       then decision\<lparr>CoTTrace := extractCoTTrace respContent\<rparr>
                                       else decision)
                       in case validateDecisionResponse decision limits of
                            Some err \<Rightarrow> (Inl (ValidationFailed err), w')
                          | None \<Rightarrow> (Inr decision, w')))))"

section \<open>Prompt synthesis\<close>

text \<open>
  The records that the prompt builders read, with the fields they read. The market data of
  the context is a Go map: it is modelled by the list of its entries, keys distinct, in the
  order in which one \<open>range\<close> over the map happens to enumerate them, an order that Go leaves
  unspecified; its length is the number of keys and a lookup is \<open>map_of\<close>.
\<close>

record AccountContext =
  TotalEquity :: real
  Available :: real
  UnrealizedPNL :: real

record CandidateContext =
  Symbol :: string
  Weight :: real
  Reason :: string

record MarketDataSnapshot =
  CurrentPrice :: real
  PriceChange1h :: real
  PriceChange4h :: real
  EMA20 :: real
  MACD :: real
  RSI7 :: real
  RSI14 :: real
  FundingRate :: real
  OpenInterest :: real

record SentimentSummary =
  Sentiment :: string
  Score :: real
  Highlights :: "string list"

record DecisionContext =
  RuntimeMinutes :: int
  CallCount :: int
  Account :: AccountContext
  Positions :: "PositionContext list"
  CandidateCoins :: "CandidateContext list"
  MarketData :: "(string \<times> MarketDataSnapshot) list"
  Performance :: PerformanceStats
  BTCETHLeverage :: int
  AltcoinLeverage :: int

record DecisionRequest =
  Exchange :: string
  Symbol :: string
  CurrentPrice :: real
  StrategySignal :: string
  AccountBalance :: real
  LearningSnippets :: "string list"
  NewsSentiment :: SentimentSummary
  RiskLimits :: RiskLimits
  Context :: DecisionContext

record promptContext =
  Request :: DecisionRequest
  Performance :: PerformanceStats
  Positions :: "PositionContext list"

definition newPromptContext ::
    "DecisionRequest \<Rightarrow> PerformanceStats \<Rightarrow> PositionContext list \<Rightarrow> promptContext" where
  "newPromptContext req performance positions =
     \<lparr>Request = req, Performance = performance, Positions = positions\<rparr>"

text \<open>
  \<open>formatNewsSummary\<close> returns the fixed text for no news (U+65E0), the sentiment itself, or
  the sentiment followed by its score in parentheses. The user prompt shows the summary unless
  it is empty or that fixed text; a summary with a score ends with a parenthesis and is
  neither.
\<close>

datatype news_summary = NoNews | PlainSentiment string | ScoredSentiment string real

definition formatNewsSummary :: "string \<Rightarrow> real \<Rightarrow> news_summary" where
  "formatNewsSummary sentiment score =
     (if sentiment = [] then NoNews
      else if score = 0 then PlainSentiment sentiment
      else ScoredSentiment sentiment score)"

definition noneText :: string where
  "noneText = [CHR 0xE6, CHR 0x97, CHR 0xA0]"

fun summaryShown :: "news_summary \<Rightarrow> bool" where
  "summaryShown NoNews = False"
| "summaryShown (PlainSentiment s) = (s \<noteq> [] \<and> s \<noteq> noneText)"
| "summaryShown (ScoredSentiment s x) = True"

text \<open>The conversion \<open>int(x)\<close> of a \<open>float64\<close> drops the fraction, towards zero.\<close>

definition intOfFloat :: "real \<Rightarrow> int" where
  "intOfFloat x = (if x < 0 then \<lceil>x\<rceil> else \<lfloor>x\<rfloor>)"

subsection \<open>The system prompt\<close>

text \<open>The blocks of the system prompt, one for each \<open>WriteString\<close> call of \<open>buildSystemPrompt\<close>.\<close>

datatype system_block =
    RoleLine
  | GoalHeading
  | GoalLine
  | Reflection "reflection_block list"
  | HardConstraintsHeading
  | JSONOutputRule
  | RiskParametersRule
  | BtcEthLeverageLine int real
  | AltcoinLeverageLine int real
  | MaxNotionalLine real
  | MaxPositionsLine int
  | MinRiskRewardLine real
  | EquityLine real
  | RequiredFieldsHeading
  | RequiredFieldsLine
  | WaitRule

definition buildSystemPrompt ::
    "real \<Rightarrow> int \<Rightarrow> int \<Rightarrow> RiskLimits \<Rightarrow> PerformanceStats \<Rightarrow> PositionContext list
      \<Rightarrow> system_block list" where
  "buildSystemPrompt accountEquity btcEthLeverage altcoinLeverage limits performance positions =
     (let btcEthLeverage = (if btcEthLeverage \<le> 0 then intOfFloat (MaxLeverage limits)
                            else btcEthLeverage);
          btcEthLeverage = (if btcEthLeverage \<le> 0 then 5 else btcEthLeverage);
          altcoinLeverage = (if altcoinLeverage \<le> 0 then btcEthLeverage else altcoinLeverage)
      in [RoleLine, GoalHeading, GoalLine,
          Reflection (buildReflectionPrompt (SharpeRatio performance) performance positions),
          HardConstraintsHeading, JSONOutputRule, RiskParametersRule,
          BtcEthLeverageLine btcEthLeverage (BtcEthNotionalMultiple limits),
          AltcoinLeverageLine altcoinLeverage (AltNotionalMultiple limits)]
         @ (if MaxPositionNotionalUSD limits > 0
            then [MaxNotionalLine (MaxPositionNotionalUSD limits)] else [])
         @ (if MaxConcurrentPositions limits > 0
            then [MaxPositionsLine (MaxConcurrentPositions limits)] else [])
         @ (if MinRiskRewardRatio limits > 0
            then [MinRiskRewardLine (MinRiskRewardRatio limits)] else [])
         @ (if accountEquity > 0 then [EquityLine accountEquity] else [])
         @ [RequiredFieldsHeading, RequiredFieldsLine, WaitRule])"

subsection \<open>The user prompt\<close>

text \<open>
  The blocks of the user prompt. A position line carries the liquidation price and the
  holding minutes when they are positive, where the source prints \<open>--\<close> and nothing otherwise;
  the exchange and the side of a position are printed in upper case.

  \<open>buildUserPrompt\<close> starts by reading the wall clock,
  \<open>time.Now().Format("2006-01-02 15:04:05")\<close>: that reading is the argument \<open>now\<close> of the
  model.
\<close>

datatype user_block =
    UserHeader string int int
  | AccountLine real real real nat
  | SymbolLine string string real string
  | PositionsHeading
  | PositionLine nat string string real real real real real "real option" "int option"
  | PositionQuantityLine real real
  | NoPositions
  | NewsHeading news_summary
  | NewsHighlight string
  | LearningHeading
  | LearningSnippet string
  | CandidatesHeading
  | CandidateLine string real string
  | MarketDataHeading
  | MarketDataLine string real real real real real real real real real
  | PerformanceBlock int real real real
  | BlankLine
  | ConstraintsHeading
  | ConstraintsJSON RiskLimits

definition positionLines :: "nat \<times> PositionContext \<Rightarrow> user_block list" where
  "positionLines p =
     (case p of (idx, pos) \<Rightarrow>
        (let holdingText = (if HoldingMinutes pos > 0 then Some (HoldingMinutes pos) else None);
             liquidation = (if Liquidation pos > 0 then Some (Liquidation pos) else None)
         in [PositionLine (idx + 1) (PositionContext.Symbol pos) (Side pos) (EntryPrice pos)
               (MarkPrice pos) (UnrealizedPct pos) (Leverage pos) (MarginUsed pos)
               liquidation holdingText,
             PositionQuantityLine (Quantity pos) (PositionContext.UnrealizedPNL pos)]))"

definition zeroSnapshot :: MarketDataSnapshot where
  "zeroSnapshot =
     \<lparr>MarketDataSnapshot.CurrentPrice = 0, PriceChange1h = 0, PriceChange4h = 0, EMA20 = 0,
      MACD = 0, RSI7 = 0, RSI14 = 0, FundingRate = 0, OpenInterest = 0\<rparr>"

definition marketDataLine :: "(string \<times> MarketDataSnapshot) list \<Rightarrow> string \<Rightarrow> user_block" where
  "marketDataLine marketData symbol =
     (let snapshot = (case map_of marketData symbol of Some s \<Rightarrow> s | None \<Rightarrow> zeroSnapshot)
      in MarketDataLine symbol (MarketDataSnapshot.CurrentPrice snapshot) (PriceChange1h snapshot)
           (PriceChange4h snapshot) (EMA20 snapshot) (MACD snapshot) (RSI7 snapshot)
           (RSI14 snapshot) (FundingRate snapshot) (OpenInterest snapshot))"

definition buildUserPrompt :: "string \<Rightarrow> promptContext \<Rightarrow> user_block list" where
  "buildUserPrompt now ctx =
     (let request = Request ctx;
          context = Context request;
          newsSummary = formatNewsSummary (SentimentSummary.Sentiment (NewsSentiment request))
                          (Score (NewsSentiment request))
      in [UserHeader now (RuntimeMinutes context) (CallCount context),
          AccountLine (TotalEquity (Account context)) (Available (Account context))
            (AccountContext.UnrealizedPNL (Account context))
            (length (DecisionContext.Positions context)),
          SymbolLine (DecisionRequest.Symbol request) (Exchange request)
            (DecisionRequest.CurrentPrice request) (StrategySignal request)]
         @ (if length (DecisionContext.Positions context) > 0
            then PositionsHeading
                 # concat (map positionLines
                     (zip [0 ..< length (DecisionContext.Positions context)]
                        (DecisionContext.Positions context)))
            else [NoPositions])
         @ (if summaryShown newsSummary
            then NewsHeading newsSummary
                 # map NewsHighlight (Highlights (NewsSentiment request)) @ [BlankLine]
            else [])
         @ (if length (LearningSnippets request) > 0
            then LearningHeading # map LearningSnippet (LearningSnippets request) @ [BlankLine]
            else [])
         @ (if length (CandidateCoins context) > 0
            then CandidatesHeading
                 # map (\<lambda>coin. CandidateLine (CandidateContext.Symbol coin) (Weight coin)
                                  (CandidateContext.Reason coin))
                     (CandidateCoins context)
                 @ [BlankLine]
            else [])
         @ (if length (MarketData context) > 0
            then (let symbols = sort (map fst (MarketData context))
                  in MarketDataHeading
                     # map (marketDataLine (MarketData context)) symbols @ [BlankLine])
            else [])
         @ (if TotalTrades (DecisionContext.Performance context) > 0
            then [PerformanceBlock (TotalTrades (DecisionContext.Performance context))
                    (WinRate (DecisionContext.Performance context) * 100)
                    (SharpeRatio (DecisionContext.Performance context))
                    (ProfitFactor (DecisionContext.Performance context))]
            else [])
         @ [ConstraintsHeading, ConstraintsJSON (DecisionRequest.RiskLimits request)])"

section \<open>Sample inputs\<close>

text \<open>Concrete decisions and limits, used where a statement is evaluated.\<close>

definition sampleDecision :: "string \<Rightarrow> real \<Rightarrow> real \<Rightarrow> real \<Rightarrow> DecisionResponse" where
  "sampleDecision a lev sl tp =
     \<lparr>Action = a, Confidence = 0, Reason = [],
      Adjustments = \<lparr>SizeMultiplier = 1, TargetLeverage = lev, StopLossPercent = sl,
                     TakeProfitPercent = tp, TrailingStopPercent = 0\<rparr>,
      RiskNotes = [], RawContent = [], CoTTrace = []\<rparr>"

definition sampleLimits :: "real \<Rightarrow> real \<Rightarrow> RiskLimits" where
  "sampleLimits maxLev minRR =
     \<lparr>MaxDailyLossPercent = 0, MaxPositionNotionalUSD = 0, MaxConcurrentPositions = 0,
      MaxLeverage = maxLev, BtcEthNotionalMultiple = 0, AltNotionalMultiple = 0,
      MinRiskRewardRatio = minRR\<rparr>"

definition samplePerformance :: "real \<Rightarrow> PerformanceStats" where
  "samplePerformance sharpe =
     \<lparr>SharpeRatio = sharpe, WinRate = 5 / 10, TotalTrades = 4, ProfitFactor = 1\<rparr>"

section \<open>Properties of validation\<close>


lemma lower_hold_spaced: "ToLower (TrimSpace '' Hold '') = ''hold''"
  by code_simp

lemma lower_open_long_hyphen: "ToLower (TrimSpace ''open-long'') = ''open-long''"
  by code_simp



text \<open>
  C5, as stated, fails: the enumeration of the code spells its names with an underscore,
  so \<open>open-long\<close> is rejected, and the action is trimmed of white space before it is
  compared, so \<open>hold\<close> between blanks is accepted.
\<close>

theorem validate_action_counterexample:
  "validateDecisionResponse (sampleDecision ''open-long'' 0 0 0) (sampleLimits 0 0)
     = Some (UnknownAction ''open-long'')
   \<and> validateDecisionResponse (sampleDecision '' Hold '' 0 0 0) (sampleLimits 0 0) = None"
  by (simp add: validateDecisionResponse_def sampleDecision_def sampleLimits_def
        lower_hold_spaced lower_open_long_hyphen validActions_def)

text \<open>
  C5, amended. The decision is rejected for its action exactly when the action, trimmed
  of surrounding white space and lowered, is neither empty nor one of open_long,
  open_short, increase_long, increase_short, close, exit, reduce, hold, wait; the error
  then names the action as it was given.
\<close>

theorem validate_action:
  "(\<exists>e. validateDecisionResponse d l = Some (UnknownAction e))
     = (ToLower (TrimSpace (Action d)) \<notin>
          {[], ''open_long'', ''open_short'', ''increase_long'', ''increase_short'',
           ''close'', ''exit'', ''reduce'', ''hold'', ''wait''})
   \<and> (validateDecisionResponse d l = Some (UnknownAction (Action d)))
     = (\<exists>e. validateDecisionResponse d l = Some (UnknownAction e))"
  by (auto simp: validateDecisionResponse_def Let_def validActions_def)

text \<open>
  C10. Validation never reads the confidence: a decision with any other confidence gets
  the same outcome.
\<close>

theorem validate_ignores_confidence:
  "validateDecisionResponse (d\<lparr>Confidence := c\<rparr>) l = validateDecisionResponse d l"
  by (simp add: validateDecisionResponse_def Let_def)

section \<open>Properties of the reflection prompt\<close>





section \<open>Properties of invocation\<close>

text \<open>
  The two messages that \<open>CallWithMessages\<close> builds, and what the attempt that makes the
  k-th call of \<open>PostJSON\<close> gets from \<open>sendCompletion\<close>. An attempt is a retryable
  failure when it returns an error that \<open>isNetworkError\<close> accepts. \<open>failedAttempts\<close>
  counts the retryable failures in a row among the three attempts that a call started in
  the world \<open>w\<close> can make.
\<close>

definition promptMessages :: "string \<Rightarrow> string \<Rightarrow> completionMessage list" where
  "promptMessages systemPrompt userPrompt =
     [\<lparr>Role = ''system'', Content = systemPrompt\<rparr>, \<lparr>Role = ''user'', Content = userPrompt\<rparr>]"

definition attemptOutcome ::
    "Client \<Rightarrow> network \<Rightarrow> string \<Rightarrow> string \<Rightarrow> nat \<Rightarrow> go_error + completionMessage" where
  "attemptOutcome c net systemPrompt userPrompt k =
     fst (sendCompletion c net (promptMessages systemPrompt userPrompt) \<lparr>posts = k, slept = []\<rparr>)"

definition retryableFailure :: "go_error + completionMessage \<Rightarrow> bool" where
  "retryableFailure r = (case r of Inl err \<Rightarrow> isNetworkError (Some err) | Inr _ \<Rightarrow> False)"

definition failedAttempts :: "Client \<Rightarrow> network \<Rightarrow> string \<Rightarrow> string \<Rightarrow> world \<Rightarrow> nat" where
  "failedAttempts c net systemPrompt userPrompt w =
     length (takeWhile (\<lambda>i. retryableFailure (attemptOutcome c net systemPrompt userPrompt (posts w + i)))
       [0, 1, 2])"

subsection \<open>One round of the loop\<close>

lemma sendCompletion_outcome:
  assumes "apiKey c \<noteq> []"
  shows "sendCompletion c net (promptMessages sp up) w
           = (attemptOutcome c net sp up (posts w), w\<lparr>posts := posts w + 1\<rparr>)"
  using assms
  by (simp add: sendCompletion_def attemptOutcome_def promptMessages_def
        split: sum.splits option.splits list.splits)

lemma retryLoop_step:
  assumes "apiKey c \<noteq> []" and "attempt \<le> 3"
  shows "retryLoop c net (promptMessages sp up) attempt lastErr w =
           (case attemptOutcome c net sp up (posts w) of
              Inr response \<Rightarrow> (Inr (Content response), w\<lparr>posts := posts w + 1\<rparr>)
            | Inl err \<Rightarrow>
                if isNetworkError (Some err)
                then retryLoop c net (promptMessages sp up) (attempt + 1) (Some err)
                       (w\<lparr>posts := posts w + 1, slept := slept w @ [int attempt * baseRetryDelay]\<rparr>)
                else (Inl err, w\<lparr>posts := posts w + 1\<rparr>))"
  using assms
  by (subst retryLoop.simps)
     (simp add: sendCompletion_outcome maxRetries_def split: sum.splits)

lemma retryLoop_done:
  assumes "attempt > 3"
  shows "retryLoop c net msgs attempt lastErr w = (Inl (retriesExhausted 3 lastErr), w)"
  using assms by (subst retryLoop.simps) (simp add: maxRetries_def)


subsection \<open>Sample clients and networks\<close>

text \<open>
  A network that times out twice and then answers, one that never answers, one whose
  provider reports a business error in the field \<open>error\<close> of the body, and one that
  answers with no choices.
\<close>

definition sampleClient :: Client where
  "sampleClient = \<lparr>apiKey = ''sk-test''\<rparr>"

definition timeoutError :: go_error where
  "timeoutError = \<lparr>netTimeout = True, dnsError = False, opError = False,
                    errorText = ''context deadline exceeded''\<rparr>"

definition refusedError :: go_error where
  "refusedError = \<lparr>netTimeout = False, dnsError = False, opError = True,
                    errorText = ''dial tcp 127.0.0.1:443: connect: connection refused''\<rparr>"

definition okResponse :: completionResponse where
  "okResponse = \<lparr>Choices = [\<lparr>Role = ''assistant'', Content = ''{}''\<rparr>], Error = None\<rparr>"

definition flakyNetwork :: network where
  "flakyNetwork k = (if k < 2 then Inl timeoutError else Inr okResponse)"

definition deadNetwork :: network where
  "deadNetwork k = (if k < 2 then Inl timeoutError else Inl refusedError)"

definition startWorld :: world where
  "startWorld = \<lparr>posts = 0, slept = []\<rparr>"

lemma retryLoop_stop:
  assumes "apiKey c \<noteq> []" and "attempt \<le> 3"
    and "\<not> retryableFailure (attemptOutcome c net sp up (posts w))"
  shows "retryLoop c net (promptMessages sp up) attempt lastErr w =
           (map_sum id Content (attemptOutcome c net sp up (posts w)), w\<lparr>posts := posts w + 1\<rparr>)"
  using assms(3) unfolding retryLoop_step [OF assms(1,2)]
  by (simp add: retryableFailure_def split: sum.splits)

lemma retryLoop_retry:
  assumes "apiKey c \<noteq> []" and "attempt \<le> 3"
    and "retryableFailure (attemptOutcome c net sp up (posts w))"
  shows "\<exists>err. attemptOutcome c net sp up (posts w) = Inl err \<and>
           retryLoop c net (promptMessages sp up) attempt lastErr w =
             retryLoop c net (promptMessages sp up) (attempt + 1) (Some err)
               (w\<lparr>posts := posts w + 1, slept := slept w @ [int attempt * baseRetryDelay]\<rparr>)"
  using assms(3) unfolding retryLoop_step [OF assms(1,2)]
  by (simp add: retryableFailure_def split: sum.splits)

subsection \<open>A whole call\<close>

text \<open>
  What a call does, by the number \<open>k\<close> of retryable failures in a row from its first
  attempt: it makes \<open>k + 1\<close> attempts, three at most, sleeps \<open>n\<close> times the base delay
  after the failing attempt \<open>n\<close>, and returns what the first attempt that is not a
  retryable failure returned, or the wrapped last error after three failures.
\<close>

lemma CallWithMessages_run:
  assumes "apiKey c \<noteq> []"
  shows "(let k = failedAttempts c net sp up w;
              res = CallWithMessages (Some c) net sp up w
          in posts (snd res) = posts w + min 3 (Suc k)
           \<and> posts (snd res) \<le> posts w + 3
           \<and> slept (snd res) = slept w @ map (\<lambda>n. int n * baseRetryDelay) [1..<Suc k]
           \<and> (k < 3 \<longrightarrow> fst res = map_sum id Content (attemptOutcome c net sp up (posts w + k)))
           \<and> (k = 3 \<longrightarrow> (\<exists>err. attemptOutcome c net sp up (posts w + 2) = Inl err
                              \<and> fst res = Inl (retriesExhausted 3 (Some err)))))"
proof -
  let ?A = "attemptOutcome c net sp up"
  let ?L = "retryLoop c net (promptMessages sp up)"
  let ?w1 = "w\<lparr>posts := posts w + 1, slept := slept w @ [int 1 * baseRetryDelay]\<rparr>"
  let ?w2 = "?w1\<lparr>posts := posts ?w1 + 1, slept := slept ?w1 @ [int (1 + 1) * baseRetryDelay]\<rparr>"
  let ?w3 = "?w2\<lparr>posts := posts ?w2 + 1,
                   slept := slept ?w2 @ [int (1 + 1 + 1) * baseRetryDelay]\<rparr>"
  let ?R0 = "retryableFailure (?A (posts w))"
  let ?R1 = "retryableFailure (?A (posts ?w1))"
  let ?R2 = "retryableFailure (?A (posts ?w2))"
  have call: "CallWithMessages (Some c) net sp up w = ?L 1 None w"
    using assms by (simp add: CallWithMessages_def promptMessages_def)
  have a1: "(1::nat) \<le> 3" and a2: "(1 + 1 :: nat) \<le> 3" and a3: "(1 + 1 + 1 :: nat) \<le> 3"
    by simp_all
  consider (a) "\<not> ?R0" | (b) "?R0" "\<not> ?R1" | (c) "?R0" "?R1" "\<not> ?R2" | (d) "?R0" "?R1" "?R2"
    by blast
  then show ?thesis
  proof cases
    case a
    then have k: "failedAttempts c net sp up w = 0" by (simp add: failedAttempts_def)
    note s0 = retryLoop_stop [OF assms a1 a, of None]
    show ?thesis unfolding Let_def k call s0 by simp
  next
    case b
    then have k: "failedAttempts c net sp up w = 1" by (simp add: failedAttempts_def)
    from retryLoop_retry [OF assms a1 b(1), of None]
    obtain e1 where s1: "?L 1 None w = ?L (1 + 1) (Some e1) ?w1" by blast
    note s2 = retryLoop_stop [OF assms a2 b(2), of "Some e1"]
    show ?thesis unfolding Let_def k call s1 s2 by simp
  next
    case c
    then have k: "failedAttempts c net sp up w = 2" by (simp add: failedAttempts_def)
    from retryLoop_retry [OF assms a1 c(1), of None]
    obtain e1 where s1: "?L 1 None w = ?L (1 + 1) (Some e1) ?w1" by blast
    from retryLoop_retry [OF assms a2 c(2), of "Some e1"]
    obtain e2 where s2: "?L (1 + 1) (Some e1) ?w1 = ?L (1 + 1 + 1) (Some e2) ?w2" by blast
    note s3 = retryLoop_stop [OF assms a3 c(3), of "Some e2"]
    show ?thesis unfolding Let_def k call s1 s2 s3 by (simp add: upt_rec)
  next
    case d
    then have k: "failedAttempts c net sp up w = 3" by (simp add: failedAttempts_def)
    from retryLoop_retry [OF assms a1 d(1), of None]
    obtain e1 where s1: "?L 1 None w = ?L (1 + 1) (Some e1) ?w1" by blast
    from retryLoop_retry [OF assms a2 d(2), of "Some e1"]
    obtain e2 where s2: "?L (1 + 1) (Some e1) ?w1 = ?L (1 + 1 + 1) (Some e2) ?w2" by blast
    from retryLoop_retry [OF assms a3 d(3), of "Some e2"]
    obtain e3 where o3: "?A (posts ?w2) = Inl e3"
      and s3: "?L (1 + 1 + 1) (Some e2) ?w2 = ?L (1 + 1 + 1 + 1) (Some e3) ?w3" by blast
    have s4: "?L (1 + 1 + 1 + 1) (Some e3) ?w3 = (Inl (retriesExhausted 3 (Some e3)), ?w3)"
      by (rule retryLoop_done) simp
    show ?thesis unfolding Let_def k call s1 s2 s3 s4 using o3 by (simp add: upt_rec)
  qed
qed



definition emptyNetwork :: network where
  "emptyNetwork k = Inr \<lparr>Choices = [], Error = None\<rparr>"

lemma timeout_retryable: "isNetworkError (Some (errorfWrap ''deepseek request: '' timeoutError))"
  by (simp add: isNetworkError_def errorfWrap_def timeoutError_def)

lemma refused_retryable: "isNetworkError (Some (errorfWrap ''deepseek request: '' refusedError))"
  by (simp add: isNetworkError_def errorfWrap_def refusedError_def)


lemma noChoices_not_retryable: "\<not> isNetworkError (Some (errorsNew errNoChoices))"
  by (simp add: isNetworkError_def errorsNew_def Contains_def errNoChoices_def)

lemma sample_key: "apiKey sampleClient \<noteq> []"
  by (simp add: sampleClient_def)

lemma flaky_outcomes:
  "k < 2 \<Longrightarrow> attemptOutcome sampleClient flakyNetwork sp up k
                 = Inl (errorfWrap ''deepseek request: '' timeoutError)"
  "\<not> k < 2 \<Longrightarrow> attemptOutcome sampleClient flakyNetwork sp up k
                 = Inr \<lparr>Role = ''assistant'', Content = ''{}''\<rparr>"
  by (simp_all add: attemptOutcome_def sendCompletion_def promptMessages_def sampleClient_def
        flakyNetwork_def okResponse_def)

lemma dead_outcomes:
  "k < 2 \<Longrightarrow> attemptOutcome sampleClient deadNetwork sp up k
                 = Inl (errorfWrap ''deepseek request: '' timeoutError)"
  "\<not> k < 2 \<Longrightarrow> attemptOutcome sampleClient deadNetwork sp up k
                 = Inl (errorfWrap ''deepseek request: '' refusedError)"
  by (simp_all add: attemptOutcome_def sendCompletion_def promptMessages_def sampleClient_def
        deadNetwork_def)


lemma empty_outcomes:
  "attemptOutcome sampleClient emptyNetwork sp up k = Inl (errorsNew errNoChoices)"
  by (simp add: attemptOutcome_def sendCompletion_def promptMessages_def sampleClient_def
        emptyNetwork_def)

lemma flaky_failed: "failedAttempts sampleClient flakyNetwork sp up startWorld = 2"
  by (simp add: failedAttempts_def startWorld_def flaky_outcomes retryableFailure_def
        timeout_retryable)

lemma dead_failed: "failedAttempts sampleClient deadNetwork sp up startWorld = 3"
  by (simp add: failedAttempts_def startWorld_def dead_outcomes retryableFailure_def
        timeout_retryable refused_retryable)


lemma empty_failed: "failedAttempts sampleClient emptyNetwork sp up startWorld = 0"
  by (simp add: failedAttempts_def startWorld_def empty_outcomes retryableFailure_def
        noChoices_not_retryable)

text \<open>
  C3. A call with a credential makes at most three attempts and sleeps \<open>n\<close> times the
  base delay of two seconds after the failing attempt \<open>n\<close>; with fewer than three
  retryable failures in a row it returns the outcome of the attempt that follows them,
  and after three it returns an error that wraps the third failure with the attempt
  count, never a success.
\<close>

theorem call_retry_policy:
  assumes "apiKey c \<noteq> []"
  shows "(let k = failedAttempts c net sp up w;
              res = CallWithMessages (Some c) net sp up w
          in posts (snd res) = posts w + min 3 (Suc k)
           \<and> posts (snd res) \<le> posts w + 3
           \<and> slept (snd res) = slept w @ map (\<lambda>n. int n * baseRetryDelay) [1..<Suc k]
           \<and> (k < 3 \<longrightarrow> fst res = map_sum id Content (attemptOutcome c net sp up (posts w + k)))
           \<and> (k = 3 \<longrightarrow> (\<exists>err. attemptOutcome c net sp up (posts w + 2) = Inl err
                              \<and> fst res = Inl (retriesExhausted 3 (Some err)))))"
  using CallWithMessages_run [OF assms] .

text \<open>
  Two time-outs and then an answer: the answer is returned after three calls and sleeps
  of one and two base delays. Three failures: the error names the count 3 and the text
  of the last failure, after three calls.
\<close>

theorem call_retry_policy_witness:
  "fst (CallWithMessages (Some sampleClient) flakyNetwork ''rules'' ''market'' startWorld) = Inr ''{}''
   \<and> posts (snd (CallWithMessages (Some sampleClient) flakyNetwork ''rules'' ''market'' startWorld)) = 3
   \<and> slept (snd (CallWithMessages (Some sampleClient) flakyNetwork ''rules'' ''market'' startWorld))
       = [1 * baseRetryDelay, 2 * baseRetryDelay]
   \<and> baseRetryDelay = 2 * 1000000000
   \<and> fst (CallWithMessages (Some sampleClient) deadNetwork ''rules'' ''market'' startWorld)
       = Inl (retriesExhausted 3 (Some (errorfWrap ''deepseek request: '' refusedError)))
   \<and> posts (snd (CallWithMessages (Some sampleClient) deadNetwork ''rules'' ''market'' startWorld)) = 3
   \<and> slept (snd (CallWithMessages (Some sampleClient) deadNetwork ''rules'' ''market'' startWorld))
       = [1 * baseRetryDelay, 2 * baseRetryDelay, 3 * baseRetryDelay]
   \<and> errorText (retriesExhausted 3 (Some (errorfWrap ''deepseek request: '' refusedError)))
       = [CHR 0xE9, CHR 0x87, CHR 0x8D, CHR 0xE8, CHR 0xAF, CHR 0x95] @ ''3''
         @ [CHR 0xE6, CHR 0xAC, CHR 0xA1, CHR 0xE5, CHR 0x90, CHR 0x8E, CHR 0xE4, CHR 0xBB, CHR 0x8D,
            CHR 0xE7, CHR 0x84, CHR 0xB6, CHR 0xE5, CHR 0xA4, CHR 0xB1, CHR 0xE8, CHR 0xB4, CHR 0xA5]
         @ '': deepseek request: dial tcp 127.0.0.1:443: connect: connection refused''"
proof -
  note flaky = call_retry_policy [OF sample_key, of flakyNetwork "''rules''" "''market''" startWorld]
  note dead = call_retry_policy [OF sample_key, of deadNetwork "''rules''" "''market''" startWorld]
  have w0: "posts startWorld = 0" "slept startWorld = []" by (simp_all add: startWorld_def)
  have msg: "errorText (retriesExhausted 3 (Some (errorfWrap ''deepseek request: '' refusedError)))
       = [CHR 0xE9, CHR 0x87, CHR 0x8D, CHR 0xE8, CHR 0xAF, CHR 0x95] @ ''3''
         @ [CHR 0xE6, CHR 0xAC, CHR 0xA1, CHR 0xE5, CHR 0x90, CHR 0x8E, CHR 0xE4, CHR 0xBB, CHR 0x8D,
            CHR 0xE7, CHR 0x84, CHR 0xB6, CHR 0xE5, CHR 0xA4, CHR 0xB1, CHR 0xE8, CHR 0xB4, CHR 0xA5]
         @ '': deepseek request: dial tcp 127.0.0.1:443: connect: connection refused''"
    by (simp add: retriesExhausted_def errRetriesExhausted_def errorfWrap_def refusedError_def
          formatInt_def decimal.simps)
  have base: "baseRetryDelay = 2 * 1000000000" by (simp add: baseRetryDelay_def Second_def)
  from flaky dead msg base show ?thesis
    unfolding Let_def flaky_failed dead_failed w0
    by (simp add: flaky_outcomes dead_outcomes upt_rec)
qed






section \<open>Properties of fence stripping\<close>

lemma leadingSpace_trimLeftSpace: "leadingSpace (trimLeftSpace s) = None"
proof (induction s rule: trimLeftSpace.induct)
  case (1 s)
  then show ?case by (subst trimLeftSpace.simps) (simp split: option.splits)
qed

lemma trailingSpace_trimRightSpace: "trailingSpace (trimRightSpace s) = None"
proof (induction s rule: trimRightSpace.induct)
  case (1 s)
  then show ?case by (subst trimRightSpace.simps) (simp split: option.splits)
qed

lemma trimLeftSpace_fixed: "leadingSpace s = None \<Longrightarrow> trimLeftSpace s = s"
  by (subst trimLeftSpace.simps) simp

lemma trimRightSpace_fixed: "trailingSpace s = None \<Longrightarrow> trimRightSpace s = s"
  by (subst trimRightSpace.simps) simp

lemma leadingSpace_take: "leadingSpace s = None \<Longrightarrow> leadingSpace (take n s) = None"
  unfolding leadingSpace_def find_None_iff
  by (meson prefix_order.trans take_is_prefix)

lemma leadingSpace_trimRightSpace:
  "leadingSpace s = None \<Longrightarrow> leadingSpace (trimRightSpace s) = None"
proof (induction s rule: trimRightSpace.induct)
  case (1 s)
  show ?case
  proof (cases "trailingSpace s")
    case None
    with "1.prems" show ?thesis by (simp add: trimRightSpace_fixed)
  next
    case (Some p)
    with "1.IH" [OF Some] "1.prems" show ?thesis
      by (subst trimRightSpace.simps) (simp add: leadingSpace_take)
  qed
qed

lemma TrimSpace_fixed:
  "leadingSpace t = None \<Longrightarrow> trailingSpace t = None \<Longrightarrow> TrimSpace t = t"
  by (simp add: TrimSpace_def trimLeftSpace_fixed trimRightSpace_fixed)

lemma TrimSpace_idem: "TrimSpace (TrimSpace s) = TrimSpace s"
proof (rule TrimSpace_fixed)
  show "leadingSpace (TrimSpace s) = None"
    unfolding TrimSpace_def by (simp add: leadingSpace_trimRightSpace leadingSpace_trimLeftSpace)
  show "trailingSpace (TrimSpace s) = None"
    unfolding TrimSpace_def by (rule trailingSpace_trimRightSpace)
qed

lemma trimJSONFences_trimmed: "TrimSpace (trimJSONFences s) = trimJSONFences s"
  by (simp add: trimJSONFences_def Let_def TrimSpace_idem)

lemma trimJSONFences_unfenced:
  "\<not> HasPrefix (TrimSpace s) ''```'' \<Longrightarrow> trimJSONFences s = TrimSpace s"
  by (simp add: trimJSONFences_def Let_def)

text \<open>A fenced block inside a bare fence, as a model that quotes its own answer writes it.\<close>

definition nestedFences :: string where
  "nestedFences = ''```'' @ [CHR 0x0A] @ ''```json'' @ [CHR 0x0A] @ ''{}'' @ [CHR 0x0A] @ ''```''
                  @ [CHR 0x0A] @ ''```''"

text \<open>
  C8, as stated, fails: one call strips one fence. From a fence inside a fence the first
  call leaves the inner fenced block, and the second call strips that one too.
\<close>

theorem trimJSONFences_idempotent_counterexample:
  "trimJSONFences nestedFences = ''```json'' @ [CHR 0x0A] @ ''{}'' @ [CHR 0x0A] @ ''```''
   \<and> trimJSONFences (trimJSONFences nestedFences) = ''{}''"
  by code_simp

text \<open>
  C8, amended. Stripping again changes nothing whenever the stripped text does not itself
  begin with a fence marker. In particular a text that, trimmed of white space, does not
  begin with a fence marker is returned trimmed and is then a fixed point.
\<close>

theorem trimJSONFences_idempotent:
  "(\<not> HasPrefix (trimJSONFences s) ''```''
      \<longrightarrow> trimJSONFences (trimJSONFences s) = trimJSONFences s)
   \<and> (\<not> HasPrefix (TrimSpace s) ''```''
      \<longrightarrow> trimJSONFences s = TrimSpace s \<and> trimJSONFences (trimJSONFences s) = trimJSONFences s)"
proof -
  have a: "trimJSONFences (trimJSONFences s) = trimJSONFences s"
    if "\<not> HasPrefix (trimJSONFences s) ''```''"
    using that trimJSONFences_unfenced [of "trimJSONFences s"]
    by (simp add: trimJSONFences_trimmed)
  have b: "\<not> HasPrefix (trimJSONFences s) ''```''" if "\<not> HasPrefix (TrimSpace s) ''```''"
    using that by (simp add: trimJSONFences_unfenced)
  show ?thesis using a b trimJSONFences_unfenced by blast
qed

definition fencedObject :: string where
  "fencedObject = ''```json'' @ [CHR 0x0A] @ ''{}'' @ [CHR 0x0A] @ ''```''"

lemma plain_fields: "TrimSpace '' {} '' = ''{}''" "trimJSONFences '' {} '' = ''{}''"
  by code_simp+

lemma fenced_fields: "trimJSONFences fencedObject = ''{}''"
  by code_simp

text \<open>An object between blanks, and an object in a fence tagged \<open>json\<close>.\<close>

theorem trimJSONFences_idempotent_witness:
  "trimJSONFences '' {} '' = ''{}'' \<and> trimJSONFences (trimJSONFences '' {} '') = ''{}''
   \<and> trimJSONFences fencedObject = ''{}''
   \<and> trimJSONFences (trimJSONFences fencedObject) = trimJSONFences fencedObject"
  using trimJSONFences_idempotent [of "'' {} ''"] trimJSONFences_idempotent [of fencedObject]
  by (simp add: plain_fields fenced_fields HasPrefix_def)

section \<open>Properties of risk-note coercion\<close>

text \<open>A number format for the samples: the integer part in decimal.\<close>

definition wholeNumberText :: "real \<Rightarrow> string" where
  "wholeNumberText x = formatInt \<lfloor>x\<rfloor>"

lemma single_note_not_blank: "TrimSpace ''single note'' \<noteq> []"
  by code_simp

lemma unmarshalStrings_strings: "unmarshalStrings (JArray (map JString ss)) = Some ss"
proof -
  have "list_all (\<lambda>x. case x of JString _ \<Rightarrow> True | JNull \<Rightarrow> True | _ \<Rightarrow> False)
          (map JString ss)"
    by (induction ss) simp_all
  moreover have "map (\<lambda>x. case x of JString s \<Rightarrow> s | _ \<Rightarrow> []) (map JString ss) = ss"
    by (induction ss) simp_all
  ultimately show ?thesis by simp
qed

text \<open>
  C7. \<open>parseRiskNotes\<close> coerces the \<open>riskNotes\<close> value as follows: absent or \<open>null\<close> gives the
  empty list; a list of strings is returned as it is; a single string is wrapped in a
  one-element list unless it is blank, which gives the empty list; a list with an element that
  is neither a string nor \<open>null\<close> is converted element by element with \<open>fmt.Sprint\<close>; a number,
  a boolean or an object is an error. In particular \<open>"single note"\<close> gives \<open>["single note"]\<close>,
  \<open>["a","b"]\<close> gives \<open>["a","b"]\<close>, and \<open>[1,"b",true]\<close> gives \<open>["1","b","true"]\<close> where the number
  1 is printed as \<open>1\<close>.
\<close>

theorem parseRiskNotes_coercion:
  "parseRiskNotes formatFloat None = Inr []
   \<and> parseRiskNotes formatFloat (Some JNull) = Inr []
   \<and> parseRiskNotes formatFloat (Some (JArray (map JString notes))) = Inr notes
   \<and> parseRiskNotes formatFloat (Some (JString single))
       = (if TrimSpace single = [] then Inr [] else Inr [single])
   \<and> (\<not> list_all (\<lambda>x. case x of JString _ \<Rightarrow> True | JNull \<Rightarrow> True | _ \<Rightarrow> False) arr
        \<longrightarrow> parseRiskNotes formatFloat (Some (JArray arr)) = Inr (map (Sprint formatFloat) arr))
   \<and> parseRiskNotes formatFloat (Some (JNumber x)) = Inl (RiskNotesUnparseable (JNumber x))
   \<and> parseRiskNotes formatFloat (Some (JBool b)) = Inl (RiskNotesUnparseable (JBool b))
   \<and> parseRiskNotes formatFloat (Some (JObject kvs)) = Inl (RiskNotesUnparseable (JObject kvs))
   \<and> parseRiskNotes formatFloat (Some (JString ''single note'')) = Inr [''single note'']
   \<and> parseRiskNotes formatFloat (Some (JArray [JString ''a'', JString ''b''])) = Inr [''a'', ''b'']
   \<and> (formatFloat 1 = ''1''
        \<longrightarrow> parseRiskNotes formatFloat (Some (JArray [JNumber 1, JString ''b'', JBool True]))
            = Inr [''1'', ''b'', ''true''])"
proof -
  have homogeneous: "parseRiskNotes formatFloat (Some (JArray (map JString notes))) = Inr notes"
    by (simp add: parseRiskNotes_def unmarshalStrings_strings del: unmarshalStrings.simps)
  have rest: "parseRiskNotes formatFloat None = Inr []
   \<and> parseRiskNotes formatFloat (Some JNull) = Inr []
   \<and> parseRiskNotes formatFloat (Some (JString single))
       = (if TrimSpace single = [] then Inr [] else Inr [single])
   \<and> (\<not> list_all (\<lambda>x. case x of JString _ \<Rightarrow> True | JNull \<Rightarrow> True | _ \<Rightarrow> False) arr
        \<longrightarrow> parseRiskNotes formatFloat (Some (JArray arr)) = Inr (map (Sprint formatFloat) arr))
   \<and> parseRiskNotes formatFloat (Some (JNumber x)) = Inl (RiskNotesUnparseable (JNumber x))
   \<and> parseRiskNotes formatFloat (Some (JBool b)) = Inl (RiskNotesUnparseable (JBool b))
   \<and> parseRiskNotes formatFloat (Some (JObject kvs)) = Inl (RiskNotesUnparseable (JObject kvs))
   \<and> parseRiskNotes formatFloat (Some (JString ''single note'')) = Inr [''single note'']
   \<and> parseRiskNotes formatFloat (Some (JArray [JString ''a'', JString ''b''])) = Inr [''a'', ''b'']
   \<and> (formatFloat 1 = ''1''
        \<longrightarrow> parseRiskNotes formatFloat (Some (JArray [JNumber 1, JString ''b'', JBool True]))
            = Inr [''1'', ''b'', ''true''])"
    by (simp add: parseRiskNotes_def single_note_not_blank)
  from homogeneous rest show ?thesis by blast
qed

text \<open>The mixed lists, evaluated with whole numbers printed in decimal.\<close>

theorem parseRiskNotes_coercion_witness:
  "parseRiskNotes wholeNumberText (Some (JArray [JNumber 1, JString ''b'', JBool True]))
     = Inr [''1'', ''b'', ''true'']
   \<and> parseRiskNotes wholeNumberText (Some (JArray [JNumber 1, JNull]))
     = Inr [''1'', ''<nil>'']"
  using parseRiskNotes_coercion [of wholeNumberText "[]" "[]" "[JNumber 1, JNull]" 0 True "[]"]
  by (simp add: wholeNumberText_def formatInt_def decimal.simps)

section \<open>Properties of parsing\<close>

text \<open>
  A sample decoder that accepts one text only, on which it agrees with \<open>json.Unmarshal\<close>,
  and two model outputs around that text.
\<close>

definition waitObject :: string where
  \<open>waitObject = ''{"action":"wait"}''\<close>

definition waitDecision :: DecisionResponse where
  "waitDecision = sampleDecision ''wait'' 0 0 0 \<lparr>Adjustments :=
     \<lparr>SizeMultiplier = 0, TargetLeverage = 0, StopLossPercent = 0,
      TakeProfitPercent = 0, TrailingStopPercent = 0\<rparr>\<rparr>"

definition sampleUnmarshal :: unmarshaler where
  "sampleUnmarshal content =
     (if content = waitObject
      then Some \<lparr>raw_Action = ''wait'', raw_Confidence = 0, raw_Reason = [],
                 raw_Adjustments = \<lparr>SizeMultiplier = 0, TargetLeverage = 0, StopLossPercent = 0,
                                     TakeProfitPercent = 0, TrailingStopPercent = 0\<rparr>,
                 raw_RiskNotes = None\<rparr>
      else None)"

definition withCommentary :: string where
  "withCommentary = ''I will wait. '' @ waitObject @ '' Done.''"

definition fencedWait :: string where
  "fencedWait = ''```json'' @ [CHR 0x0A] @ waitObject @ [CHR 0x0A] @ ''```''"

definition fencedNetwork :: network where
  "fencedNetwork k = Inr \<lparr>Choices = [\<lparr>Role = ''assistant'', Content = fencedWait\<rparr>], Error = None\<rparr>"

lemma decode_wait:
  "decodeDecision sampleUnmarshal wholeNumberText waitObject = Inr waitDecision"
  by (simp add: decodeDecision_def sampleUnmarshal_def parseRiskNotes_def waitDecision_def
        sampleDecision_def)

lemma strip_withCommentary: "trimJSONFences withCommentary = withCommentary"
  by code_simp

lemma strip_fencedWait: "trimJSONFences fencedWait = waitObject"
  by code_simp

lemma trace_withCommentary: "extractCoTTrace withCommentary = ''I will wait.''"
  by code_simp

lemma trace_fencedWait: "extractCoTTrace fencedWait = []"
  by code_simp

lemma snippet_withCommentary:
  "Index withCommentary ''{'' = Some 13" "LastIndex withCommentary ''}'' = Some 29"
  "take 17 (drop 13 withCommentary) = waitObject"
  "withCommentary \<noteq> waitObject" "withCommentary \<noteq> []" "waitObject \<noteq> []"
  "fencedWait \<noteq> waitObject"
  by code_simp+

lemma parse_withCommentary:
  "parseFullDecisionResponse sampleUnmarshal wholeNumberText withCommentary
     = Inr (waitDecision\<lparr>RawContent := withCommentary, CoTTrace := ''I will wait.''\<rparr>)"
proof -
  have whole: "decodeDecision sampleUnmarshal wholeNumberText withCommentary = Inl InvalidJSON"
    by (simp add: decodeDecision_def sampleUnmarshal_def snippet_withCommentary)
  show ?thesis
    by (simp add: parseFullDecisionResponse_def strip_withCommentary snippet_withCommentary
          trace_withCommentary decode_wait whole)
qed


lemma call_fenced:
  "CallWithMessages (Some sampleClient) fencedNetwork ''rules'' ''market'' startWorld
     = (Inr fencedWait, \<lparr>posts = 1, slept = []\<rparr>)"
  by code_simp

lemma parse_fencedWait:
  "parseFullDecisionResponse sampleUnmarshal wholeNumberText fencedWait
     = Inr (waitDecision\<lparr>RawContent := waitObject, CoTTrace := []\<rparr>)"
  by (simp add: parseFullDecisionResponse_def strip_fencedWait snippet_withCommentary
        trace_fencedWait decode_wait)

lemma lower_wait: "ToLower (TrimSpace ''wait'') = ''wait''"
  by code_simp

lemma wait_valid:
  "validateDecisionResponse (waitDecision\<lparr>RawContent := r, CoTTrace := t\<rparr>) (sampleLimits 0 0) = None"
  by (simp add: validateDecisionResponse_def waitDecision_def sampleDecision_def sampleLimits_def
        lower_wait validActions_def Let_def)

lemma generate_fenced:
  "GenerateDecision (Some sampleClient) fencedNetwork sampleUnmarshal wholeNumberText
       ''rules'' ''market'' (sampleLimits 0 0) startWorld
     = (Inr (waitDecision\<lparr>RawContent := fencedWait, CoTTrace := []\<rparr>), \<lparr>posts = 1, slept = []\<rparr>)"
  by (simp add: GenerateDecision_def sample_key call_fenced parse_fencedWait trace_fencedWait
        wait_valid Let_def)

lemma parse_success_fields:
  assumes "parseFullDecisionResponse unmarshal formatFloat raw = Inr resp"
  shows "RawContent resp = trimJSONFences raw" and "CoTTrace resp = extractCoTTrace raw"
  using assms
  by (auto simp add: parseFullDecisionResponse_def Let_def
        split: if_splits sum.splits option.splits prod.splits)

text \<open>
  C6 as stated does not hold. When the whole fence-stripped text is not valid JSON and the
  substring from the first \<open>{\<close> to the last \<open>}\<close> is, \<open>parseFullDecisionResponse\<close> still stores the
  whole fence-stripped text in \<open>RawContent\<close>, not the substring that was decoded; and
  \<open>GenerateDecision\<close> returns the unmodified output of the model, fences included, where the text
  decoded was the fence-stripped one.
\<close>

theorem raw_content_counterexample:
  "decodeDecision sampleUnmarshal wholeNumberText withCommentary = Inl InvalidJSON
   \<and> Index withCommentary ''{'' = Some 13 \<and> LastIndex withCommentary ''}'' = Some 29
   \<and> take 17 (drop 13 withCommentary) = waitObject
   \<and> decodeDecision sampleUnmarshal wholeNumberText waitObject = Inr waitDecision
   \<and> parseFullDecisionResponse sampleUnmarshal wholeNumberText withCommentary
        = Inr (waitDecision\<lparr>RawContent := withCommentary, CoTTrace := ''I will wait.''\<rparr>)
   \<and> withCommentary \<noteq> waitObject
   \<and> trimJSONFences fencedWait = waitObject
   \<and> GenerateDecision (Some sampleClient) fencedNetwork sampleUnmarshal wholeNumberText
        ''rules'' ''market'' (sampleLimits 0 0) startWorld
      = (Inr (waitDecision\<lparr>RawContent := fencedWait, CoTTrace := []\<rparr>), \<lparr>posts = 1, slept = []\<rparr>)
   \<and> fencedWait \<noteq> waitObject"
  by (simp add: parse_withCommentary decode_wait snippet_withCommentary strip_fencedWait
        generate_fenced)
     (simp add: decodeDecision_def sampleUnmarshal_def snippet_withCommentary)

text \<open>
  C6, amended. On success \<open>parseFullDecisionResponse\<close> returns the whole fence-stripped text
  in \<open>RawContent\<close>, whichever of the two decoding attempts succeeded, and the result of
  \<open>extractCoTTrace\<close> on the raw text in \<open>CoTTrace\<close>; \<open>GenerateDecision\<close> then replaces
  \<open>RawContent\<close> by the unmodified text of the model, fences included, and keeps that trace.
\<close>

theorem raw_content_on_success:
  "(parseFullDecisionResponse unmarshal formatFloat raw = Inr resp
      \<longrightarrow> RawContent resp = trimJSONFences raw \<and> CoTTrace resp = extractCoTTrace raw)
   \<and> (GenerateDecision client net unmarshal formatFloat systemPrompt userPrompt limits w
         = (Inr decision, w')
      \<longrightarrow> CallWithMessages client net systemPrompt userPrompt w = (Inr (RawContent decision), w')
          \<and> CoTTrace decision = extractCoTTrace (RawContent decision))"
proof (intro conjI impI)
  assume "parseFullDecisionResponse unmarshal formatFloat raw = Inr resp"
  then show "RawContent resp = trimJSONFences raw"
    by (rule parse_success_fields)
next
  assume "parseFullDecisionResponse unmarshal formatFloat raw = Inr resp"
  then show "CoTTrace resp = extractCoTTrace raw"
    by (rule parse_success_fields)
next
  assume g: "GenerateDecision client net unmarshal formatFloat systemPrompt userPrompt limits w
               = (Inr decision, w')"
  then show "CallWithMessages client net systemPrompt userPrompt w = (Inr (RawContent decision), w')"
    by (auto simp add: GenerateDecision_def Let_def
          split: if_splits sum.splits option.splits prod.splits)
next
  assume g: "GenerateDecision client net unmarshal formatFloat systemPrompt userPrompt limits w
               = (Inr decision, w')"
  then show "CoTTrace decision = extractCoTTrace (RawContent decision)"
    by (auto simp add: GenerateDecision_def Let_def
          dest: parse_success_fields(2)
          split: if_splits sum.splits option.splits prod.splits)
qed

theorem raw_content_on_success_witness:
  "parseFullDecisionResponse sampleUnmarshal wholeNumberText withCommentary
     = Inr (waitDecision\<lparr>RawContent := withCommentary, CoTTrace := ''I will wait.''\<rparr>)
   \<and> trimJSONFences withCommentary = withCommentary
   \<and> extractCoTTrace withCommentary = ''I will wait.''
   \<and> GenerateDecision (Some sampleClient) fencedNetwork sampleUnmarshal wholeNumberText
        ''rules'' ''market'' (sampleLimits 0 0) startWorld
      = (Inr (waitDecision\<lparr>RawContent := fencedWait, CoTTrace := []\<rparr>), \<lparr>posts = 1, slept = []\<rparr>)
   \<and> CallWithMessages (Some sampleClient) fencedNetwork ''rules'' ''market'' startWorld
      = (Inr fencedWait, \<lparr>posts = 1, slept = []\<rparr>)
   \<and> extractCoTTrace fencedWait = []"
  using raw_content_on_success [of sampleUnmarshal wholeNumberText withCommentary
          "waitDecision\<lparr>RawContent := withCommentary, CoTTrace := ''I will wait.''\<rparr>"
          "Some sampleClient" fencedNetwork "''rules''" "''market''" "sampleLimits 0 0" startWorld
          "waitDecision\<lparr>RawContent := fencedWait, CoTTrace := []\<rparr>" "\<lparr>posts = 1, slept = []\<rparr>"]
  by (simp add: parse_withCommentary generate_fenced)

section \<open>Properties of prompt synthesis\<close>

text \<open>A prompt context with the entries of its market data enumerated in a given order.\<close>

definition withMarketData ::
    "promptContext \<Rightarrow> (string \<times> MarketDataSnapshot) list \<Rightarrow> promptContext" where
  "withMarketData ctx marketData =
     ctx\<lparr>Request := (Request ctx)\<lparr>Context := (Context (Request ctx))\<lparr>MarketData := marketData\<rparr>\<rparr>\<rparr>"

definition sampleSnapshot :: "real \<Rightarrow> MarketDataSnapshot" where
  "sampleSnapshot price =
     \<lparr>MarketDataSnapshot.CurrentPrice = price, PriceChange1h = 0, PriceChange4h = 0, EMA20 = 0,
      MACD = 0, RSI7 = 0, RSI14 = 0, FundingRate = 0, OpenInterest = 0\<rparr>"

definition sampleMarket :: "(string \<times> MarketDataSnapshot) list" where
  "sampleMarket = [(''ETHUSDT'', sampleSnapshot 3000), (''BTCUSDT'', sampleSnapshot 60000)]"

definition sampleRequest :: DecisionRequest where
  "sampleRequest =
     \<lparr>Exchange = ''binance'', Symbol = ''BTCUSDT'', CurrentPrice = 60000, StrategySignal = ''hold'',
      AccountBalance = 100, LearningSnippets = [],
      NewsSentiment = \<lparr>Sentiment = [], Score = 0, Highlights = []\<rparr>,
      RiskLimits = sampleLimits 5 3,
      Context = \<lparr>RuntimeMinutes = 3, CallCount = 1,
                  Account = \<lparr>TotalEquity = 100, Available = 100, UnrealizedPNL = 0\<rparr>,
                  Positions = [], CandidateCoins = [], MarketData = [],
                  Performance = samplePerformance 0, BTCETHLeverage = 5, AltcoinLeverage = 3\<rparr>\<rparr>"

definition sampleContext :: promptContext where
  "sampleContext = newPromptContext sampleRequest (samplePerformance 0) []"

lemma sorted_keys_unique:
  assumes "distinct (map fst md1)" and "distinct (map fst md2)" and "map_of md1 = map_of md2"
  shows "sort (map fst md1) = sort (map fst md2)"
proof -
  have "dom (map_of md1) = dom (map_of md2)" using assms(3) by simp
  then have "set (map fst md1) = set (map fst md2)" by (simp add: dom_map_of_conv_image_fst)
  with assms(1,2) show ?thesis
    by (intro sorted_distinct_set_unique) simp_all
qed

lemma same_emptiness:
  assumes "map_of md1 = map_of md2"
  shows "md1 = [] \<longleftrightarrow> md2 = []"
proof -
  have "dom (map_of md1) = dom (map_of md2)" using assms by simp
  then have "set (map fst md1) = set (map fst md2)" by (simp add: dom_map_of_conv_image_fst)
  then show ?thesis by (metis list.map_disc_iff set_empty)
qed

lemma marketDataLine_cong:
  "map_of md1 = map_of md2 \<Longrightarrow> marketDataLine md1 = marketDataLine md2"
  by (rule ext) (simp add: marketDataLine_def)

lemma buildUserPrompt_header:
  "buildUserPrompt now ctx
     = UserHeader now (RuntimeMinutes (Context (Request ctx))) (CallCount (Context (Request ctx)))
       # tl (buildUserPrompt now ctx)"
  by (simp add: buildUserPrompt_def Let_def)

lemma buildUserPrompt_rest:
  "tl (buildUserPrompt now ctx) = tl (buildUserPrompt now' ctx)"
  by (simp add: buildUserPrompt_def Let_def)

lemma buildUserPrompt_enumeration:
  assumes "distinct (map fst md1)" and "distinct (map fst md2)" and "map_of md1 = map_of md2"
  shows "buildUserPrompt now (withMarketData ctx md1) = buildUserPrompt now (withMarketData ctx md2)"
  using sorted_keys_unique [OF assms] same_emptiness [OF assms(3)] marketDataLine_cong [OF assms(3)]
  by (simp add: buildUserPrompt_def withMarketData_def Let_def)

text \<open>
  C9 as stated does not hold: \<open>buildUserPrompt\<close> reads the wall clock, so the same prompt
  context rendered at two moments gives two different user prompts.
\<close>

theorem user_prompt_clock_counterexample:
  "buildUserPrompt ''2025-01-01 00:00:00'' sampleContext
     \<noteq> buildUserPrompt ''2025-01-01 00:00:01'' sampleContext"
  by (simp add: buildUserPrompt_def Let_def)

text \<open>
  C9, amended. The user prompt is a function of the prompt context and of the reading of the
  wall clock at the call: the reading is printed in the first line and nowhere else, and for a
  fixed reading the prompt does not depend on the order in which the market-data map is
  enumerated, its keys being sorted before they are printed.
\<close>

theorem user_prompt_reproducible:
  assumes "distinct (map fst md1)" and "distinct (map fst md2)" and "map_of md1 = map_of md2"
  shows "buildUserPrompt now (withMarketData ctx md1) = buildUserPrompt now (withMarketData ctx md2)
       \<and> hd (buildUserPrompt now (withMarketData ctx md1))
           = UserHeader now (RuntimeMinutes (Context (Request ctx))) (CallCount (Context (Request ctx)))
       \<and> tl (buildUserPrompt now (withMarketData ctx md1))
           = tl (buildUserPrompt now' (withMarketData ctx md2))"
proof (intro conjI)
  show "buildUserPrompt now (withMarketData ctx md1) = buildUserPrompt now (withMarketData ctx md2)"
    using assms by (rule buildUserPrompt_enumeration)
  show "hd (buildUserPrompt now (withMarketData ctx md1))
          = UserHeader now (RuntimeMinutes (Context (Request ctx))) (CallCount (Context (Request ctx)))"
    by (subst buildUserPrompt_header) (simp add: withMarketData_def)
  have "tl (buildUserPrompt now (withMarketData ctx md1))
          = tl (buildUserPrompt now (withMarketData ctx md2))"
    using buildUserPrompt_enumeration [OF assms] by simp
  then show "tl (buildUserPrompt now (withMarketData ctx md1))
          = tl (buildUserPrompt now' (withMarketData ctx md2))"
    using buildUserPrompt_rest [of now "withMarketData ctx md2" now'] by simp
qed

lemma sampleMarket_keys:
  "distinct (map fst sampleMarket)" "distinct (map fst (rev sampleMarket))"
  "map_of sampleMarket = map_of (rev sampleMarket)"
  by (auto simp add: sampleMarket_def fun_eq_iff)

lemma sampleMarket_orders: "sampleMarket \<noteq> rev sampleMarket"
  by (simp add: sampleMarket_def)

lemma sampleContext_counters:
  "RuntimeMinutes (Context (Request sampleContext)) = 3"
  "CallCount (Context (Request sampleContext)) = 1"
  by (simp_all add: sampleContext_def sampleRequest_def newPromptContext_def)

lemma sample_user_prompt:
  "buildUserPrompt ''2025-01-01 00:00:00'' (withMarketData sampleContext (rev sampleMarket))
     = [UserHeader ''2025-01-01 00:00:00'' 3 1,
        AccountLine 100 100 0 0,
        SymbolLine ''BTCUSDT'' ''binance'' 60000 ''hold'',
        NoPositions,
        MarketDataHeading,
        MarketDataLine ''BTCUSDT'' 60000 0 0 0 0 0 0 0 0,
        MarketDataLine ''ETHUSDT'' 3000 0 0 0 0 0 0 0 0,
        BlankLine,
        PerformanceBlock 4 50 0 1,
        ConstraintsHeading,
        ConstraintsJSON (sampleLimits 5 3)]"
proof -
  have keys: "sort (map fst (rev sampleMarket)) = [''BTCUSDT'', ''ETHUSDT'']"
    by code_simp
  have market: "MarketData (Context (Request (withMarketData sampleContext (rev sampleMarket))))
                  = rev sampleMarket"
    by (simp add: withMarketData_def)
  have lines: "map (marketDataLine (rev sampleMarket)) [''BTCUSDT'', ''ETHUSDT'']
                 = [MarketDataLine ''BTCUSDT'' 60000 0 0 0 0 0 0 0 0,
                    MarketDataLine ''ETHUSDT'' 3000 0 0 0 0 0 0 0 0]"
    by (simp add: marketDataLine_def sampleMarket_def sampleSnapshot_def)
  have nonempty: "rev sampleMarket \<noteq> []" by (simp add: sampleMarket_def)
  show ?thesis
    unfolding buildUserPrompt_def Let_def market keys lines
    using nonempty
    by (simp add: withMarketData_def sampleContext_def sampleRequest_def newPromptContext_def
          formatNewsSummary_def samplePerformance_def)
qed

theorem user_prompt_reproducible_witness:
  "distinct (map fst sampleMarket) \<and> distinct (map fst (rev sampleMarket))
   \<and> map_of sampleMarket = map_of (rev sampleMarket)
   \<and> sampleMarket \<noteq> rev sampleMarket
   \<and> buildUserPrompt ''2025-01-01 00:00:00'' (withMarketData sampleContext sampleMarket)
       = buildUserPrompt ''2025-01-01 00:00:00'' (withMarketData sampleContext (rev sampleMarket))
   \<and> hd (buildUserPrompt ''2025-01-01 00:00:00'' (withMarketData sampleContext sampleMarket))
       = UserHeader ''2025-01-01 00:00:00'' 3 1
   \<and> tl (buildUserPrompt ''2025-01-01 00:00:00'' (withMarketData sampleContext sampleMarket))
       = tl (buildUserPrompt ''2025-01-01 00:00:01'' (withMarketData sampleContext (rev sampleMarket)))
   \<and> buildUserPrompt ''2025-01-01 00:00:00'' (withMarketData sampleContext sampleMarket)
       = [UserHeader ''2025-01-01 00:00:00'' 3 1,
          AccountLine 100 100 0 0,
          SymbolLine ''BTCUSDT'' ''binance'' 60000 ''hold'',
          NoPositions,
          MarketDataHeading,
          MarketDataLine ''BTCUSDT'' 60000 0 0 0 0 0 0 0 0,
          MarketDataLine ''ETHUSDT'' 3000 0 0 0 0 0 0 0 0,
          BlankLine,
          PerformanceBlock 4 50 0 1,
          ConstraintsHeading,
          ConstraintsJSON (sampleLimits 5 3)]"
  using user_prompt_reproducible [of sampleMarket "rev sampleMarket" "''2025-01-01 00:00:00''"
          sampleContext "''2025-01-01 00:00:01''", unfolded sampleContext_counters]
        sampleMarket_keys sampleMarket_orders sample_user_prompt
  by metis

end
